theory Spec2Isabelle
  imports Complex_Main
begin

section \<open>Exceptions and values\<close>

text \<open>
  Every \<^verbatim>\<open>raise\<close> of \<^verbatim>\<open>github_script.py\<close>, and every exception of a
  built-in that the code lets through, is a value \<open>Inl e\<close> of the result type.
  \<open>Raised\<close> stands for an exception of the caller's own code (the script, the client
  library's methods).
\<close>

datatype error =
    ValueError
  | AttributeError
  | KeyError
  | JSONDecodeError
  | UnicodeEncodeError
  | UnicodeDecodeError
  | FileNotFoundError
  | NotADirectoryError
  | IsADirectoryError
  | PermissionError
  | Raised string

definition and_then :: "error + 'a \<Rightarrow> ('a \<Rightarrow> error + 'b) \<Rightarrow> error + 'b" where
  \<comment> \<open>Sequencing: an exception of the first step skips the rest.\<close>
  "and_then m f = (case m of Inl e \<Rightarrow> Inl e | Inr x \<Rightarrow> f x)"

text \<open>
  The values \<^verbatim>\<open>json.load\<close> returns: \<^verbatim>\<open>None\<close>, booleans, integers, floats (a finite
  float by its value), strings, lists and dictionaries. A dictionary is the list of its
  items; its keys are distinct, and a lookup takes the first item with the key.
\<close>

datatype pyval =
    PNone
  | PBool bool
  | PInt int
  | PFloat real
  | PStr string
  | PList "pyval list"
  | PDict "(string \<times> pyval) list"

definition truthy :: "pyval \<Rightarrow> bool" where
  \<comment> \<open>\<^verbatim>\<open>bool(v)\<close>, which decides \<^verbatim>\<open>v or w\<close>.\<close>
  "truthy v =
     (case v of
        PNone \<Rightarrow> False
      | PBool b \<Rightarrow> b
      | PInt i \<Rightarrow> i \<noteq> 0
      | PFloat r \<Rightarrow> r \<noteq> 0
      | PStr s \<Rightarrow> s \<noteq> []
      | PList xs \<Rightarrow> xs \<noteq> []
      | PDict kvs \<Rightarrow> kvs \<noteq> [])"

definition dict_get :: "pyval \<Rightarrow> string \<Rightarrow> pyval \<Rightarrow> error + pyval" where
  \<comment> \<open>\<^verbatim>\<open>d.get(key, default)\<close>: only a dictionary has the method.\<close>
  "dict_get d key dflt =
     (case d of
        PDict kvs \<Rightarrow> Inr (case map_of kvs key of None \<Rightarrow> dflt | Some v \<Rightarrow> v)
      | _ \<Rightarrow> Inl AttributeError)"

definition dict_item :: "(string \<times> 'a) list \<Rightarrow> string \<Rightarrow> error + 'a" where
  \<comment> \<open>\<^verbatim>\<open>d[key]\<close>\<close>
  "dict_item d key = (case map_of d key of None \<Rightarrow> Inl KeyError | Some v \<Rightarrow> Inr v)"

section \<open>The process environment and the file system\<close>

text \<open>\<^verbatim>\<open>os.environ\<close>: a dictionary from variable names to their values.\<close>

type_synonym environ = "string \<rightharpoonup> string"

definition getenv :: "environ \<Rightarrow> string \<Rightarrow> string option" where
  \<comment> \<open>\<^verbatim>\<open>os.getenv(key)\<close>: \<open>None\<close> is Python's \<^verbatim>\<open>None\<close>.\<close>
  "getenv env key = env key"

definition getenv_default :: "environ \<Rightarrow> string \<Rightarrow> string \<Rightarrow> string" where
  \<comment> \<open>\<^verbatim>\<open>os.getenv(key, default)\<close>\<close>
  "getenv_default env key dflt = (case env key of None \<Rightarrow> dflt | Some v \<Rightarrow> v)"

text \<open>
  The file system, as far as the code reaches it: a path names a regular file with its
  bytes, a directory, or nothing. \<^verbatim>\<open>os.path.exists\<close> is false for the empty path.

  Whether the operating system opens a path is its own decision: \<open>open_error m path\<close> is the
  exception with which it refuses to open \<open>path\<close> in mode \<open>m\<close> (no permission; for appending
  to a path that names nothing, a parent directory that is missing or is not a directory),
  and \<open>None\<close> when it does not refuse.
\<close>

datatype entry = File string | Directory

type_synonym filesystem = "string \<rightharpoonup> entry"

datatype mode = Read | Append

definition path_exists :: "filesystem \<Rightarrow> string \<Rightarrow> bool" where
  "path_exists fs path = (path \<noteq> [] \<and> fs path \<noteq> None)"

definition read_file ::
  "(mode \<Rightarrow> string \<Rightarrow> error option) \<Rightarrow> filesystem \<Rightarrow> string \<Rightarrow> error + string" where
  \<comment> \<open>\<^verbatim>\<open>open(path, "r")\<close> and the bytes of the file; decoding them is the reader's.\<close>
  "read_file open_error fs path =
     (if path = [] then Inl FileNotFoundError
      else case open_error Read path of
        Some e \<Rightarrow> Inl e
      | None \<Rightarrow>
          (case fs path of
             None \<Rightarrow> Inl FileNotFoundError
           | Some Directory \<Rightarrow> Inl IsADirectoryError
           | Some (File bytes) \<Rightarrow> Inr bytes))"

text \<open>
  A \<^verbatim>\<open>str\<close> is the list of its code points; \<open>str\<close> writes an ASCII literal. The names and
  values of the environment and the paths are kept by their bytes, as the operating
  system holds them; a literal name of the code is ASCII and is its own bytes.
\<close>

type_synonym pystr = "nat list"

definition str :: "string \<Rightarrow> pystr" where
  "str s = map of_char s"

definition append_text ::
  "(pystr \<Rightarrow> string option) \<Rightarrow> (mode \<Rightarrow> string \<Rightarrow> error option) \<Rightarrow> filesystem \<Rightarrow> string
     \<Rightarrow> pystr \<Rightarrow> error + filesystem" where
  \<comment> \<open>\<^verbatim>\<open>with open(path, "a") as f: f.write(text)\<close>. Append mode creates a missing file
      where the operating system lets it, and writes at the end of an existing one.
      \<open>encode\<close> is the text layer of the file: the bytes written for a text, \<open>None\<close> when
      the text cannot be encoded (\<^verbatim>\<open>UnicodeEncodeError\<close>).\<close>
  "append_text encode open_error fs path text =
     (if path = [] then Inl FileNotFoundError
      else case open_error Append path of
        Some e \<Rightarrow> Inl e
      | None \<Rightarrow>
          (case fs path of
             Some Directory \<Rightarrow> Inl IsADirectoryError
           | None \<Rightarrow>
               (case encode text of
                  None \<Rightarrow> Inl UnicodeEncodeError
                | Some bytes \<Rightarrow> Inr (fs(path \<mapsto> File bytes)))
           | Some (File old) \<Rightarrow>
               (case encode text of
                  None \<Rightarrow> Inl UnicodeEncodeError
                | Some bytes \<Rightarrow> Inr (fs(path \<mapsto> File (old @ bytes))))))"

section \<open>String methods of the interpreter\<close>

text \<open>
  \<^verbatim>\<open>str.upper\<close> follows the Unicode case mappings; it is the interpreter's, and the model
  takes it as the function \<open>upper\<close> where the code calls it.
\<close>

definition replace :: "'a \<Rightarrow> 'a \<Rightarrow> 'a list \<Rightarrow> 'a list" where
  \<comment> \<open>\<^verbatim>\<open>s.replace(old, new)\<close> where \<open>old\<close> and \<open>new\<close> are one character each.\<close>
  "replace old new s = map (\<lambda>c. if c = old then new else c) s"

fun split_str :: "char \<Rightarrow> nat \<Rightarrow> string \<Rightarrow> string list" where
  \<comment> \<open>\<^verbatim>\<open>s.split(sep, maxsplit)\<close> for a separator of one character: at most
      \<open>maxsplit\<close> cuts, from the left.\<close>
  "split_str sep 0 s = [s]"
| "split_str sep (Suc n) s =
     (if sep \<in> set s
      then takeWhile (\<lambda>c. c \<noteq> sep) s # split_str sep n (tl (dropWhile (\<lambda>c. c \<noteq> sep) s))
      else [s])"

section \<open>Core\<close>

definition set_output ::
  "('v \<Rightarrow> pystr) \<Rightarrow> (pystr \<Rightarrow> string option) \<Rightarrow> (mode \<Rightarrow> string \<Rightarrow> error option)
     \<Rightarrow> environ \<Rightarrow> filesystem \<Rightarrow> pystr \<Rightarrow> 'v \<Rightarrow> error + filesystem" where
  \<comment> \<open>\<open>fmt v\<close> is the text the f-string puts for \<^verbatim>\<open>{value}\<close> (the value itself when it
      is a string). The result is the file system after the call.\<close>
  "set_output fmt encode open_error env fs name v =
     (case getenv env ''GITHUB_OUTPUT'' of
        None \<Rightarrow> Inr fs
      | Some output_file \<Rightarrow>
          if output_file \<noteq> []
          then append_text encode open_error fs output_file
                 (name @ str ''='' @ fmt v @ str [CHR 0x0A])
          else Inr fs)"

definition export_variable ::
  "('v \<Rightarrow> pystr) \<Rightarrow> (pystr \<Rightarrow> string option) \<Rightarrow> (mode \<Rightarrow> string \<Rightarrow> error option)
     \<Rightarrow> environ \<Rightarrow> filesystem \<Rightarrow> pystr \<Rightarrow> 'v \<Rightarrow> error + filesystem" where
  "export_variable fmt encode open_error env fs name v =
     (case getenv env ''GITHUB_ENV'' of
        None \<Rightarrow> Inr fs
      | Some env_file \<Rightarrow>
          if env_file \<noteq> []
          then append_text encode open_error fs env_file
                 (name @ str ''='' @ fmt v @ str [CHR 0x0A])
          else Inr fs)"

definition get_input ::
  "(pystr \<Rightarrow> pystr) \<Rightarrow> (pystr \<Rightarrow> string option) \<Rightarrow> environ \<Rightarrow> pystr \<Rightarrow> bool
     \<Rightarrow> error + string" where
  \<comment> \<open>\<open>upper\<close> is \<^verbatim>\<open>str.upper\<close>. \<open>fsencode\<close> is \<^verbatim>\<open>os.fsencode\<close>, by which \<^verbatim>\<open>os.getenv\<close>
      turns the name it is given into bytes: \<open>None\<close> when it raises \<^verbatim>\<open>UnicodeEncodeError\<close>,
      as it does for a lone surrogate.\<close>
  "get_input upper fsencode env name required =
     (case fsencode (str ''INPUT_'' @ replace (of_char CHR ''-'') (of_char CHR ''_'') (upper name)) of
        None \<Rightarrow> Inl UnicodeEncodeError
      | Some key \<Rightarrow>
          (let val = getenv_default env key ''''
           in if required \<and> val = [] then Inl ValueError else Inr val))"

section \<open>Context\<close>

record "context" =
  payload :: pyval
  event_name :: string
  sha :: string
  ref :: string
  workflow :: string
  action :: string
  actor :: string
  job :: string
  run_number :: int
  run_id :: int
  api_url :: string
  server_url :: string
  graphql_url :: string

text \<open>
  \<^verbatim>\<open>json.load\<close> and \<^verbatim>\<open>int\<close> are the interpreter's: \<open>json_load bytes\<close> is what
  \<^verbatim>\<open>json.load\<close> makes of a file with these bytes, the document or the exception of decoding
  or parsing them (\<^verbatim>\<open>UnicodeDecodeError\<close>, \<^verbatim>\<open>JSONDecodeError\<close>); \<open>int_of s\<close> is the integer a
  string denotes, \<open>None\<close> when \<^verbatim>\<open>int(s)\<close> raises \<^verbatim>\<open>ValueError\<close>.
\<close>

definition load_payload ::
  "(string \<Rightarrow> error + pyval) \<Rightarrow> (mode \<Rightarrow> string \<Rightarrow> error option) \<Rightarrow> environ \<Rightarrow> filesystem
     \<Rightarrow> error + pyval" where
  \<comment> \<open>\<^verbatim>\<open>Context._load_payload\<close>\<close>
  "load_payload json_load open_error env fs =
     (case getenv env ''GITHUB_EVENT_PATH'' of
        None \<Rightarrow> Inr (PDict [])
      | Some event_path \<Rightarrow>
          if event_path \<noteq> [] \<and> path_exists fs event_path
          then and_then (read_file open_error fs event_path) json_load
          else Inr (PDict []))"

definition to_int :: "(string \<Rightarrow> int option) \<Rightarrow> string \<Rightarrow> error + int" where
  \<comment> \<open>\<^verbatim>\<open>int(s)\<close>\<close>
  "to_int int_of s = (case int_of s of None \<Rightarrow> Inl ValueError | Some n \<Rightarrow> Inr n)"

definition Context_init ::
  "(string \<Rightarrow> error + pyval) \<Rightarrow> (mode \<Rightarrow> string \<Rightarrow> error option) \<Rightarrow> (string \<Rightarrow> int option)
     \<Rightarrow> environ \<Rightarrow> filesystem \<Rightarrow> error + context" where
  \<comment> \<open>\<^verbatim>\<open>Context.__init__\<close>, the fields in the order of their assignments.\<close>
  "Context_init json_load open_error int_of env fs =
     and_then (load_payload json_load open_error env fs) (\<lambda>p.
     and_then (to_int int_of (getenv_default env ''GITHUB_RUN_NUMBER'' ''0'')) (\<lambda>rn.
     and_then (to_int int_of (getenv_default env ''GITHUB_RUN_ID'' ''0'')) (\<lambda>ri.
       Inr \<lparr> payload = p,
             event_name = getenv_default env ''GITHUB_EVENT_NAME'' [],
             sha = getenv_default env ''GITHUB_SHA'' [],
             ref = getenv_default env ''GITHUB_REF'' [],
             workflow = getenv_default env ''GITHUB_WORKFLOW'' [],
             action = getenv_default env ''GITHUB_ACTION'' [],
             actor = getenv_default env ''GITHUB_ACTOR'' [],
             job = getenv_default env ''GITHUB_JOB'' [],
             run_number = rn,
             run_id = ri,
             api_url = getenv_default env ''GITHUB_API_URL'' ''https://api.github.com'',
             server_url = getenv_default env ''GITHUB_SERVER_URL'' ''https://github.com'',
             graphql_url =
               getenv_default env ''GITHUB_GRAPHQL_URL'' ''https://api.github.com/graphql'' \<rparr>)))"

definition repo :: "environ \<Rightarrow> error + (string \<times> string) list" where
  \<comment> \<open>The property \<^verbatim>\<open>Context.repo\<close>: it reads the environment at each access.
      Unpacking into two names raises \<^verbatim>\<open>ValueError\<close> unless the split has two parts.\<close>
  "repo env =
     (let repository = getenv_default env ''GITHUB_REPOSITORY'' ''/'' in
      case split_str (CHR ''/'') 1 repository of
        [owner, repo] \<Rightarrow> Inr [(''owner'', owner), (''repo'', repo)]
      | _ \<Rightarrow> Inl ValueError)"

definition issue :: "environ \<Rightarrow> context \<Rightarrow> error + (string \<times> pyval) list" where
  \<comment> \<open>The property \<^verbatim>\<open>Context.issue\<close>; the dictionary display evaluates its values
      in order, and \<^verbatim>\<open>or\<close> evaluates its right operand only when the left is falsy.\<close>
  "issue env self =
     and_then (and_then (repo env) (\<lambda>r. dict_item r ''owner'')) (\<lambda>owner.
     and_then (and_then (repo env) (\<lambda>r. dict_item r ''repo'')) (\<lambda>repo.
     and_then
       (and_then (and_then (dict_get (payload self) ''issue'' (PDict []))
                   (\<lambda>i. dict_get i ''number'' PNone)) (\<lambda>n1.
          if truthy n1 then Inr n1
          else and_then (and_then (dict_get (payload self) ''pull_request'' (PDict []))
                          (\<lambda>pr. dict_get pr ''number'' PNone)) (\<lambda>n2.
                 if truthy n2 then Inr n2
                 else dict_get (payload self) ''number'' (PInt 0))))
       (\<lambda>number.
          Inr [(''owner'', PStr owner), (''repo'', PStr repo), (''number'', number)])))"

section \<open>GitHubWrapper\<close>

text \<open>
  The client library's classes are not this program's. \<open>retry_config\<close> holds the arguments
  \<^verbatim>\<open>GithubRetry\<close> is constructed with, \<open>github_client\<close> those of \<^verbatim>\<open>Github\<close>. The wrapper's
  \<^verbatim>\<open>rest\<close> sub-clients hold that same client and nothing more, so they are not a field.
\<close>

record retry_config =
  total :: int
  backoff_factor :: int
  status_forcelist :: "int list"

record github_client =
  auth :: "string option"
  base_url :: string
  retry :: "retry_config option"

record github_wrapper =
  github :: github_client
  token :: string
  wrapper_base_url :: string

definition GitHubWrapper_init ::
  "string \<Rightarrow> string option \<Rightarrow> int \<Rightarrow> int list option \<Rightarrow> github_wrapper" where
  \<comment> \<open>\<^verbatim>\<open>GitHubWrapper.__init__(token, base_url, retries, retry_exempt_status_codes)\<close>;
      \<^verbatim>\<open>x or d\<close> is \<open>d\<close> when \<open>x\<close> is \<^verbatim>\<open>None\<close> or empty.\<close>
  "GitHubWrapper_init tok url retries retry_exempt_status_codes =
     (let exempt =
            (case retry_exempt_status_codes of
               None \<Rightarrow> [400, 401, 403, 404, 422]
             | Some codes \<Rightarrow> if codes \<noteq> [] then codes else [400, 401, 403, 404, 422]);
          retry_config =
            (if retries > 0
             then Some \<lparr> total = retries, backoff_factor = 1,
                         status_forcelist = filter (\<lambda>x. x \<notin> set exempt) [400..599] \<rparr>
             else None);
          url' =
            (case url of
               None \<Rightarrow> ''https://api.github.com''
             | Some u \<Rightarrow> if u \<noteq> [] then u else ''https://api.github.com'')
      in \<lparr> github = \<lparr> auth = (if tok \<noteq> [] then Some tok else None),
                       base_url = url', retry = retry_config \<rparr>,
           token = tok,
           wrapper_base_url = url' \<rparr>)"

fun append_each :: "'o list \<Rightarrow> 'o list \<Rightarrow> 'o list" where
  \<comment> \<open>\<^verbatim>\<open>for item in results: all_results.append(item)\<close>, on the items the iteration
      yields.\<close>
  "append_each all_results [] = all_results"
| "append_each all_results (item # items) = append_each (all_results @ [item]) items"

definition paginate ::
  "('a \<Rightarrow> error + 'o) \<Rightarrow> ('o \<Rightarrow> string \<Rightarrow> error + bool) \<Rightarrow> ('o \<Rightarrow> error + 'o list)
     \<Rightarrow> 'a \<Rightarrow> error + 'o list" where
  \<comment> \<open>\<open>method args\<close> is the call \<^verbatim>\<open>method(*args, **kwargs)\<close>. \<open>hasattr\<close> and \<open>iterate\<close> are
      the interpreter's on the returned object: \<^verbatim>\<open>hasattr\<close> lets through an exception
      of a property other than \<^verbatim>\<open>AttributeError\<close>; iterating yields the items, or raises
      (an object that cannot be iterated, a request that fails).\<close>
  "paginate method hasattr iterate args =
     and_then (method args) (\<lambda>results.
     and_then (hasattr results ''totalCount'') (\<lambda>paginated.
       if paginated
       then and_then (iterate results) (\<lambda>items. Inr (append_each [] items))
       else Inr ([] @ [results])))"

section \<open>Running a script\<close>

text \<open>
  What a name of the script's namespace is bound to: the three objects handed in, a
  module, or a plain value.
\<close>

datatype core = Core

datatype pyobj =
    Value pyval
  | Module string
  | GithubObj github_wrapper
  | ContextObj "context"
  | CoreObj core

type_synonym namespace = "string \<rightharpoonup> pyobj"

definition run_script ::
  "(string \<Rightarrow> namespace \<Rightarrow> error + namespace) \<Rightarrow> string \<Rightarrow> github_wrapper \<Rightarrow> context \<Rightarrow> core
     \<Rightarrow> error + pyobj" where
  \<comment> \<open>\<open>exec\<close> is the interpreter's \<^verbatim>\<open>exec(script, globals)\<close>: the namespace as the script
      leaves it, or the exception the script raises.\<close>
  "run_script exec script gh ctx cr =
     (let exec_globals =
            [''github'' \<mapsto> GithubObj gh,
             ''context'' \<mapsto> ContextObj ctx,
             ''core'' \<mapsto> CoreObj cr,
             ''os'' \<mapsto> Module ''os'',
             ''sys'' \<mapsto> Module ''sys'',
             ''json'' \<mapsto> Module ''json'']
      in and_then (exec script exec_globals) (\<lambda>exec_globals'.
           Inr (case exec_globals' ''__result__'' of None \<Rightarrow> Value PNone | Some r \<Rightarrow> r)))"

section \<open>Lines of a text\<close>

fun lines_from :: "string \<Rightarrow> string \<Rightarrow> string list" where
  \<comment> \<open>The lines of a text, given the part of the current line read so far: a line ends at
      a newline; characters after the last newline are a last line.\<close>
  "lines_from cur [] = (if cur = [] then [] else [cur])"
| "lines_from cur (c # cs) =
     (if c = CHR 0x0A then cur # lines_from [] cs else lines_from (cur @ [c]) cs)"

definition lines_of :: "string \<Rightarrow> string list" where
  "lines_of text = lines_from [] text"

section \<open>Auxiliary notions of the statements\<close>

text \<open>A context with a given payload, for the concrete instances below.\<close>

definition context_with :: "pyval \<Rightarrow> context" where
  "context_with p =
     \<lparr> payload = p, event_name = ''issues'', sha = [], ref = [], workflow = [], action = [],
       actor = [], job = [], run_number = 1, run_id = 1, api_url = [], server_url = [],
       graphql_url = [] \<rparr>"

text \<open>
  A payload \<open>kvs\<close> gives no number under \<open>key\<close>: the key is absent, or its value is a
  dictionary whose \<open>number\<close> is absent or falsy.
\<close>

definition no_number :: "(string \<times> pyval) list \<Rightarrow> string \<Rightarrow> bool" where
  "no_number kvs key =
     (case map_of kvs key of
        None \<Rightarrow> True
      | Some (PDict d) \<Rightarrow> (case map_of d ''number'' of None \<Rightarrow> True | Some n \<Rightarrow> \<not> truthy n)
      | Some _ \<Rightarrow> False)"

section \<open>Properties\<close>

subsection \<open>Reading inputs\<close>

lemma input_key:
  "str ''INPUT_'' @ replace (of_char CHR ''-'') (of_char CHR ''_'') (upper name) =
   str ''INPUT_'' @ map (\<lambda>c. if c = 45 then 95 else c) (upper name)"
  by (simp add: replace_def)

lemma get_input_encoded:
  assumes "fsencode (str ''INPUT_'' @ map (\<lambda>c. if c = 45 then 95 else c) (upper name)) = Some key"
  shows "get_input upper fsencode env name required =
     (if required \<and> env key \<in> {None, Some ''''} then Inl ValueError
      else Inr (case env key of None \<Rightarrow> '''' | Some v \<Rightarrow> v))"
  using assms unfolding get_input_def input_key
  by (auto simp: getenv_default_def Let_def split: option.splits)

lemma get_input_unencodable:
  assumes "fsencode (str ''INPUT_'' @ map (\<lambda>c. if c = 45 then 95 else c) (upper name)) = None"
  shows "get_input upper fsencode env name required = Inl UnicodeEncodeError"
  using assms unfolding get_input_def input_key by simp

text \<open>
  A name with a lone surrogate has no bytes: \<^verbatim>\<open>os.getenv\<close> raises \<^verbatim>\<open>UnicodeEncodeError\<close>,
  a subclass of \<^verbatim>\<open>ValueError\<close>, although \<open>required\<close> is false and the variable of the name
  is of no concern. (\<^verbatim>\<open>str.upper\<close> leaves the name \<open>U+D800\<close> as it is.)
\<close>

theorem get_input_surrogate_counterexample:
  "get_input (\<lambda>s. s) (\<lambda>s. if 0xD800 \<in> set s then None else Some (map char_of s))
     [''INPUT_TOKEN'' \<mapsto> ''s3cr3t''] [0xD800] False
   = Inl UnicodeEncodeError"
  by (simp add: get_input_def str_def replace_def)

text \<open>
  C4 (amended). For a name whose variable name \<^verbatim>\<open>os.getenv\<close> can encode, \<open>get_input\<close> reads
  the variable \<open>INPUT_\<close> followed by \<^verbatim>\<open>name.upper()\<close> with every dash (code point 45) an
  underscore (95). It raises \<open>ValueError\<close> exactly when \<open>required\<close> is true and that variable
  is unset or empty; in every other case it returns the variable's value as it is (the
  empty string when the variable is unset). For a name that cannot be encoded it raises
  \<^verbatim>\<open>UnicodeEncodeError\<close>.
\<close>

theorem get_input_required:
  "(\<forall>key. fsencode (str ''INPUT_'' @ map (\<lambda>c. if c = 45 then 95 else c) (upper name)) = Some key \<longrightarrow>
      (get_input upper fsencode env name required = Inl ValueError \<longleftrightarrow>
         required \<and> env key \<in> {None, Some ''''}) \<and>
      (\<not> (required \<and> env key \<in> {None, Some ''''}) \<longrightarrow>
         get_input upper fsencode env name required =
           Inr (case env key of None \<Rightarrow> '''' | Some v \<Rightarrow> v))) \<and>
   (fsencode (str ''INPUT_'' @ map (\<lambda>c. if c = 45 then 95 else c) (upper name)) = None \<longrightarrow>
      get_input upper fsencode env name required = Inl UnicodeEncodeError)"
proof (intro conjI allI impI)
  fix key
  assume k: "fsencode (str ''INPUT_'' @ map (\<lambda>c. if c = 45 then 95 else c) (upper name)) = Some key"
  show "get_input upper fsencode env name required = Inl ValueError \<longleftrightarrow>
         required \<and> env key \<in> {None, Some ''''}"
    by (simp add: get_input_encoded [where fsencode = fsencode and upper = upper and name = name, OF k])
  show "get_input upper fsencode env name required =
           Inr (case env key of None \<Rightarrow> '''' | Some v \<Rightarrow> v)"
    if "\<not> (required \<and> env key \<in> {None, Some ''''})"
    using that by (simp add: get_input_encoded [where fsencode = fsencode and upper = upper and name = name, OF k])
next
  assume "fsencode (str ''INPUT_'' @ map (\<lambda>c. if c = 45 then 95 else c) (upper name)) = None"
  then show "get_input upper fsencode env name required = Inl UnicodeEncodeError"
    by (rule get_input_unencodable)
qed

theorem get_input_required_witness:
  "get_input (\<lambda>s. if s = str ''my-token'' then str ''MY-TOKEN'' else s)
     (\<lambda>s. if s = str ''INPUT_MY_TOKEN'' then Some ''INPUT_MY_TOKEN'' else None)
     [''INPUT_MY_TOKEN'' \<mapsto> ''s3cr3t''] (str ''my-token'') True = Inr ''s3cr3t'' \<and>
   get_input (\<lambda>s. if s = str ''my-token'' then str ''MY-TOKEN'' else s)
     (\<lambda>s. if s = str ''INPUT_MY_TOKEN'' then Some ''INPUT_MY_TOKEN'' else None)
     [''INPUT_MY_TOKEN'' \<mapsto> ''''] (str ''my-token'') True = Inl ValueError \<and>
   get_input (\<lambda>s. if s = str ''my-token'' then str ''MY-TOKEN'' else s)
     (\<lambda>s. if s = str ''INPUT_MY_TOKEN'' then Some ''INPUT_MY_TOKEN'' else None)
     Map.empty (str ''my-token'') True = Inl ValueError"
proof -
  let ?upper = "\<lambda>s. if s = str ''my-token'' then str ''MY-TOKEN'' else s"
  let ?fsencode = "\<lambda>s. if s = str ''INPUT_MY_TOKEN'' then Some ''INPUT_MY_TOKEN'' else None"
  have k: "?fsencode (str ''INPUT_'' @ map (\<lambda>c. if c = 45 then 95 else c) (?upper (str ''my-token'')))
             = Some ''INPUT_MY_TOKEN''"
    by (simp add: str_def)
  have "get_input ?upper ?fsencode env (str ''my-token'') True =
      (if env ''INPUT_MY_TOKEN'' \<in> {None, Some ''''} then Inl ValueError
       else Inr (case env ''INPUT_MY_TOKEN'' of None \<Rightarrow> '''' | Some v \<Rightarrow> v))" for env
    using get_input_required [where upper = ?upper and fsencode = ?fsencode and env = env
        and name = "str ''my-token''" and required = True] k
    by (cases "env ''INPUT_MY_TOKEN'' \<in> {None, Some ''''}") auto
  then show ?thesis by simp
qed

text \<open>
  With \<open>required\<close> false too, a name with a lone surrogate makes \<^verbatim>\<open>os.getenv\<close> raise.
  (\<^verbatim>\<open>str.upper\<close> leaves the name \<open>MY\<close> followed by \<open>U+DFFF\<close> as it is.)
\<close>

theorem get_input_optional_counterexample:
  "get_input (\<lambda>s. s) (\<lambda>s. if 0xDFFF \<in> set s then None else Some (map char_of s))
     Map.empty (str ''MY'' @ [0xDFFF]) False
   = Inl UnicodeEncodeError"
  by (simp add: get_input_def str_def replace_def)

text \<open>
  C9 (amended). For a name whose variable name \<^verbatim>\<open>os.getenv\<close> can encode, \<open>get_input\<close> with
  \<open>required\<close> false does not raise: it returns the variable's value, and the empty string
  (not \<open>None\<close>) when the variable is unset. For a name that cannot be encoded it raises
  \<^verbatim>\<open>UnicodeEncodeError\<close>.
\<close>

theorem get_input_optional_total:
  "(\<forall>key. fsencode (str ''INPUT_'' @ map (\<lambda>c. if c = 45 then 95 else c) (upper name)) = Some key \<longrightarrow>
      get_input upper fsencode env name False =
        Inr (case env key of None \<Rightarrow> '''' | Some v \<Rightarrow> v)) \<and>
   (fsencode (str ''INPUT_'' @ map (\<lambda>c. if c = 45 then 95 else c) (upper name)) = None \<longrightarrow>
      get_input upper fsencode env name False = Inl UnicodeEncodeError)"
proof (intro conjI allI impI)
  fix key
  assume k: "fsencode (str ''INPUT_'' @ map (\<lambda>c. if c = 45 then 95 else c) (upper name)) = Some key"
  show "get_input upper fsencode env name False =
        Inr (case env key of None \<Rightarrow> '''' | Some v \<Rightarrow> v)"
    by (simp add: get_input_encoded [where fsencode = fsencode and upper = upper and name = name, OF k])
next
  assume "fsencode (str ''INPUT_'' @ map (\<lambda>c. if c = 45 then 95 else c) (upper name)) = None"
  then show "get_input upper fsencode env name False = Inl UnicodeEncodeError"
    by (rule get_input_unencodable)
qed

theorem get_input_optional_total_witness:
  "get_input (\<lambda>s. if s = str ''my-token'' then str ''MY-TOKEN'' else s)
     (\<lambda>s. if s = str ''INPUT_MY_TOKEN'' then Some ''INPUT_MY_TOKEN'' else None)
     Map.empty (str ''my-token'') False = Inr '''' \<and>
   get_input (\<lambda>s. if s = str ''my-token'' then str ''MY-TOKEN'' else s)
     (\<lambda>s. if s = str ''INPUT_MY_TOKEN'' then Some ''INPUT_MY_TOKEN'' else None)
     [''INPUT_MY_TOKEN'' \<mapsto> ''s3cr3t''] (str ''my-token'') False = Inr ''s3cr3t''"
proof -
  let ?upper = "\<lambda>s. if s = str ''my-token'' then str ''MY-TOKEN'' else s"
  let ?fsencode = "\<lambda>s. if s = str ''INPUT_MY_TOKEN'' then Some ''INPUT_MY_TOKEN'' else None"
  have k: "?fsencode (str ''INPUT_'' @ map (\<lambda>c. if c = 45 then 95 else c) (?upper (str ''my-token'')))
             = Some ''INPUT_MY_TOKEN''"
    by (simp add: str_def)
  have "get_input ?upper ?fsencode env (str ''my-token'') False =
      Inr (case env ''INPUT_MY_TOKEN'' of None \<Rightarrow> '''' | Some v \<Rightarrow> v)" for env
    using get_input_optional_total [where upper = ?upper and fsencode = ?fsencode and env = env
        and name = "str ''my-token''"] k
    by blast
  then show ?thesis by simp
qed

subsection \<open>The repository and the issue of a context\<close>

lemma takeWhile_upto_sep: "sep \<notin> set a \<Longrightarrow> takeWhile (\<lambda>c. c \<noteq> sep) (a @ sep # b) = a"
  by (induction a) auto

lemma dropWhile_upto_sep: "sep \<notin> set a \<Longrightarrow> dropWhile (\<lambda>c. c \<noteq> sep) (a @ sep # b) = sep # b"
  by (induction a) auto

lemma split_first: "sep \<notin> set a \<Longrightarrow> split_str sep 1 (a @ sep # b) = [a, b]"
  by (simp add: takeWhile_upto_sep dropWhile_upto_sep)

text \<open>
  C3. For a repository string \<open>owner/name\<close>, where \<open>owner\<close> has no slash, \<open>repo\<close> is the
  dictionary of \<open>owner\<close> and \<open>name\<close>: the string is cut once, at its first slash, and
  \<open>name\<close> keeps any further slash. With \<open>GITHUB_REPOSITORY\<close> unset the default \<open>/\<close> gives
  two empty strings and no exception.
\<close>

theorem repo_split:
  "(CHR ''/'' \<notin> set owner \<and> env ''GITHUB_REPOSITORY'' = Some (owner @ ''/'' @ name) \<longrightarrow>
      repo env = Inr [(''owner'', owner), (''repo'', name)]) \<and>
   (env ''GITHUB_REPOSITORY'' = None \<longrightarrow> repo env = Inr [(''owner'', []), (''repo'', [])])"
proof (intro conjI impI)
  assume h: "CHR ''/'' \<notin> set owner \<and> env ''GITHUB_REPOSITORY'' = Some (owner @ ''/'' @ name)"
  then have "split_str (CHR ''/'') 1 (owner @ ''/'' @ name) = [owner, name]"
    using split_first [of "CHR ''/''" owner name] by simp
  with h show "repo env = Inr [(''owner'', owner), (''repo'', name)]"
    by (simp add: repo_def getenv_default_def)
next
  assume "env ''GITHUB_REPOSITORY'' = None"
  then show "repo env = Inr [(''owner'', []), (''repo'', [])]"
    by (simp add: repo_def getenv_default_def)
qed

theorem repo_split_witness:
  "repo [''GITHUB_REPOSITORY'' \<mapsto> ''octo/hello/world''] = Inr [(''owner'', ''octo''), (''repo'', ''hello/world'')] \<and>
   repo Map.empty = Inr [(''owner'', []), (''repo'', [])]"
  using repo_split [of "''octo''" "[''GITHUB_REPOSITORY'' \<mapsto> ''octo/hello/world'']" "''hello/world''"]
    repo_split [of "''octo''" "Map.empty" "''hello/world''"]
  by simp

text \<open>
  An issue number that is falsy does not count: with \<open>issue.number = 0\<close> the number of
  the pull request is taken. And \<open>issue\<close> reads \<open>repo\<close> first: a repository string with no
  slash raises \<^verbatim>\<open>ValueError\<close>, whatever the payload.
\<close>

theorem issue_number_counterexample:
  "issue [''GITHUB_REPOSITORY'' \<mapsto> ''octo/hello'']
     (context_with (PDict [(''issue'', PDict [(''number'', PInt 0)]),
                           (''pull_request'', PDict [(''number'', PInt 5)]),
                           (''number'', PInt 7)]))
   = Inr [(''owner'', PStr ''octo''), (''repo'', PStr ''hello''), (''number'', PInt 5)] \<and>
   issue [''GITHUB_REPOSITORY'' \<mapsto> ''octo'']
     (context_with (PDict [(''issue'', PDict [(''number'', PInt 42)])]))
   = Inl ValueError"
  by (simp add: issue_def repo_def getenv_default_def context_with_def and_then_def dict_item_def
      dict_get_def truthy_def)

text \<open>
  C2 (amended). For a payload that is a dictionary, with \<open>repo\<close> succeeding: when the
  payload's \<open>issue\<close> is a dictionary with a truthy \<open>number\<close> (not zero, not \<open>None\<close>, not
  empty), the \<open>number\<close> of \<open>issue\<close> is that number, whatever \<open>pull_request\<close> and the
  top-level \<open>number\<close> are. When \<open>issue\<close> gives no number, a truthy \<open>pull_request.number\<close>
  is taken; when neither gives one, the top-level \<open>number\<close> if the key is present, and 0
  otherwise.
\<close>

theorem issue_number_priority:
  assumes "payload self = PDict kvs"
    and "repo env = Inr [(''owner'', owner), (''repo'', name)]"
  shows
   "(\<forall>i n. map_of kvs ''issue'' = Some (PDict i) \<and> map_of i ''number'' = Some n \<and> truthy n \<longrightarrow>
        issue env self = Inr [(''owner'', PStr owner), (''repo'', PStr name), (''number'', n)]) \<and>
    (\<forall>pr m. no_number kvs ''issue'' \<and> map_of kvs ''pull_request'' = Some (PDict pr) \<and>
        map_of pr ''number'' = Some m \<and> truthy m \<longrightarrow>
        issue env self = Inr [(''owner'', PStr owner), (''repo'', PStr name), (''number'', m)]) \<and>
    (no_number kvs ''issue'' \<and> no_number kvs ''pull_request'' \<longrightarrow>
        issue env self = Inr [(''owner'', PStr owner), (''repo'', PStr name),
          (''number'', case map_of kvs ''number'' of None \<Rightarrow> PInt 0 | Some t \<Rightarrow> t)])"
  using assms
  by (auto simp: issue_def and_then_def dict_item_def dict_get_def no_number_def truthy_def
      split: option.splits pyval.splits)

theorem issue_number_priority_witness:
  "issue [''GITHUB_REPOSITORY'' \<mapsto> ''octo/hello'']
     (context_with (PDict [(''issue'', PDict [(''number'', PInt 42)]),
                           (''pull_request'', PDict [(''number'', PInt 5)]),
                           (''number'', PInt 7)]))
   = Inr [(''owner'', PStr ''octo''), (''repo'', PStr ''hello''), (''number'', PInt 42)] \<and>
   issue [''GITHUB_REPOSITORY'' \<mapsto> ''octo/hello'']
     (context_with (PDict [(''pull_request'', PDict [(''number'', PInt 5)]),
                           (''number'', PInt 7)]))
   = Inr [(''owner'', PStr ''octo''), (''repo'', PStr ''hello''), (''number'', PInt 5)] \<and>
   issue [''GITHUB_REPOSITORY'' \<mapsto> ''octo/hello''] (context_with (PDict [(''number'', PInt 7)]))
   = Inr [(''owner'', PStr ''octo''), (''repo'', PStr ''hello''), (''number'', PInt 7)] \<and>
   issue [''GITHUB_REPOSITORY'' \<mapsto> ''octo/hello''] (context_with (PDict []))
   = Inr [(''owner'', PStr ''octo''), (''repo'', PStr ''hello''), (''number'', PInt 0)]"
proof -
  have r: "repo [''GITHUB_REPOSITORY'' \<mapsto> ''octo/hello'']
             = Inr [(''owner'', ''octo''), (''repo'', ''hello'')]"
    by (simp add: repo_def getenv_default_def)
  have p: "payload (context_with (PDict kvs)) = PDict kvs" for kvs
    by (simp add: context_with_def)
  show ?thesis
    using issue_number_priority [OF p r,
        of "[(''issue'', PDict [(''number'', PInt 42)]),
             (''pull_request'', PDict [(''number'', PInt 5)]), (''number'', PInt 7)]"]
      issue_number_priority [OF p r,
        of "[(''pull_request'', PDict [(''number'', PInt 5)]), (''number'', PInt 7)]"]
      issue_number_priority [OF p r, of "[(''number'', PInt 7)]"]
      issue_number_priority [OF p r, of "[]"]
    by (simp add: no_number_def truthy_def)
qed

subsection \<open>Constructing a context\<close>

lemma and_then_Inr: "and_then m f = Inr y \<longleftrightarrow> (\<exists>x. m = Inr x \<and> f x = Inr y)"
  by (cases m) (simp_all add: and_then_def)

lemma to_int_Inr: "to_int int_of s = Inr n \<longleftrightarrow> int_of s = Some n"
  by (simp add: to_int_def split: option.splits)

lemma Context_init_Inr:
  assumes "Context_init json_load open_error int_of env fs = Inr c"
  shows "load_payload json_load open_error env fs = Inr (payload c)"
    and "int_of (getenv_default env ''GITHUB_RUN_NUMBER'' ''0'') = Some (run_number c)"
    and "int_of (getenv_default env ''GITHUB_RUN_ID'' ''0'') = Some (run_id c)"
  using assms unfolding Context_init_def and_then_Inr to_int_Inr by auto

lemma Context_init_payload_fails:
  "load_payload json_load open_error env fs = Inl e \<Longrightarrow>
   Context_init json_load open_error int_of env fs = Inl e"
  by (simp add: Context_init_def and_then_def)



lemma Context_init_succeeds:
  "load_payload json_load open_error env fs = Inr p \<Longrightarrow>
   int_of (getenv_default env ''GITHUB_RUN_NUMBER'' ''0'') = Some rn \<Longrightarrow>
   int_of (getenv_default env ''GITHUB_RUN_ID'' ''0'') = Some ri \<Longrightarrow>
   \<exists>c. Context_init json_load open_error int_of env fs = Inr c \<and>
       payload c = p \<and> run_number c = rn \<and> run_id c = ri"
  by (simp add: Context_init_def and_then_def to_int_def)

lemma load_payload_file:
  "env ''GITHUB_EVENT_PATH'' = Some p \<Longrightarrow> path_exists fs p \<Longrightarrow> fs p = Some (File bytes) \<Longrightarrow>
   open_error Read p = None \<Longrightarrow>
   load_payload json_load open_error env fs = json_load bytes"
  by (cases "json_load bytes")
    (simp_all add: load_payload_def getenv_def path_exists_def read_file_def and_then_def)

lemma load_payload_none:
  "env ''GITHUB_EVENT_PATH'' = None \<or>
     (\<exists>q. env ''GITHUB_EVENT_PATH'' = Some q \<and> \<not> path_exists fs q) \<Longrightarrow>
   load_payload json_load open_error env fs = Inr (PDict [])"
  by (auto simp: load_payload_def getenv_def)

text \<open>
  A path that exists need not be a file with JSON in it. With \<open>GITHUB_EVENT_PATH\<close> naming a
  directory the construction raises \<^verbatim>\<open>IsADirectoryError\<close>; with a file that is not JSON
  it raises \<^verbatim>\<open>JSONDecodeError\<close>. In neither case is there a payload.
\<close>

theorem load_payload_directory_counterexample:
  "Context_init (\<lambda>bytes. if bytes = ''{}'' then Inr (PDict []) else Inl JSONDecodeError)
     (\<lambda>m path. None) (\<lambda>s. if s = ''0'' then Some 0 else None)
     [''GITHUB_EVENT_PATH'' \<mapsto> ''/github/workflow''] [''/github/workflow'' \<mapsto> Directory]
   = Inl IsADirectoryError \<and>
   Context_init (\<lambda>bytes. if bytes = ''{}'' then Inr (PDict []) else Inl JSONDecodeError)
     (\<lambda>m path. None) (\<lambda>s. if s = ''0'' then Some 0 else None)
     [''GITHUB_EVENT_PATH'' \<mapsto> ''/github/workflow/event.json'']
     [''/github/workflow/event.json'' \<mapsto> File ''not json'']
   = Inl JSONDecodeError"
  by (simp add: Context_init_def load_payload_def getenv_def path_exists_def read_file_def
      and_then_def)

text \<open>
  C8 (amended). The payload is read through \<open>GITHUB_EVENT_PATH\<close>. When the variable is set
  and the path exists, naming a regular file that the operating system opens, the payload
  is what \<^verbatim>\<open>json.load\<close> makes of the file: its document, or its exception when the bytes
  are not JSON. When the variable is unset or the path does not exist, the payload is the
  empty dictionary. Whenever the payload has loaded and the two run numbers parse, the
  construction succeeds with that payload as its field; a constructed context has no other
  payload, and an exception of loading the payload is the exception of the construction.
\<close>

theorem load_payload_cases:
  "(env ''GITHUB_EVENT_PATH'' = Some p \<and> path_exists fs p \<and> fs p = Some (File bytes) \<and>
      open_error Read p = None \<longrightarrow>
      load_payload json_load open_error env fs = json_load bytes) \<and>
   (env ''GITHUB_EVENT_PATH'' = None \<or>
      (\<exists>q. env ''GITHUB_EVENT_PATH'' = Some q \<and> \<not> path_exists fs q) \<longrightarrow>
      load_payload json_load open_error env fs = Inr (PDict [])) \<and>
   (\<forall>doc rn ri. load_payload json_load open_error env fs = Inr doc \<and>
      int_of (getenv_default env ''GITHUB_RUN_NUMBER'' ''0'') = Some rn \<and>
      int_of (getenv_default env ''GITHUB_RUN_ID'' ''0'') = Some ri \<longrightarrow>
      (\<exists>c. Context_init json_load open_error int_of env fs = Inr c \<and> payload c = doc)) \<and>
   (\<forall>c. Context_init json_load open_error int_of env fs = Inr c \<longrightarrow>
      load_payload json_load open_error env fs = Inr (payload c)) \<and>
   (\<forall>e. load_payload json_load open_error env fs = Inl e \<longrightarrow>
      Context_init json_load open_error int_of env fs = Inl e)"
    (is "?file \<and> ?none \<and> ?constructed \<and> ?field \<and> ?raised")
proof -
  have "?file"
    using load_payload_file by blast
  moreover have "?none"
    by (intro impI) (rule load_payload_none)
  moreover have "?constructed"
    using Context_init_succeeds by blast
  moreover have "?field"
    using Context_init_Inr(1) by blast
  moreover have "?raised"
    using Context_init_payload_fails by blast
  ultimately show ?thesis by (intro conjI)
qed

theorem load_payload_cases_witness:
  "(\<exists>c. Context_init (\<lambda>bytes. if bytes = ''[1]'' then Inr (PList [PInt 1]) else Inl JSONDecodeError)
          (\<lambda>m path. None) (\<lambda>s. if s = ''0'' then Some 0 else None)
          [''GITHUB_EVENT_PATH'' \<mapsto> ''/tmp/event.json''] [''/tmp/event.json'' \<mapsto> File ''[1]'']
        = Inr c \<and> payload c = PList [PInt 1]) \<and>
   (\<exists>c. Context_init (\<lambda>bytes. if bytes = ''[1]'' then Inr (PList [PInt 1]) else Inl JSONDecodeError)
          (\<lambda>m path. None) (\<lambda>s. if s = ''0'' then Some 0 else None)
          [''GITHUB_EVENT_PATH'' \<mapsto> ''/tmp/event.json''] Map.empty
        = Inr c \<and> payload c = PDict []) \<and>
   (\<exists>c. Context_init (\<lambda>bytes. if bytes = ''[1]'' then Inr (PList [PInt 1]) else Inl JSONDecodeError)
          (\<lambda>m path. None) (\<lambda>s. if s = ''0'' then Some 0 else None)
          Map.empty [''/tmp/event.json'' \<mapsto> File ''[1]'']
        = Inr c \<and> payload c = PDict [])"
proof -
  let ?json = "\<lambda>bytes. if bytes = ''[1]'' then Inr (PList [PInt 1]) else Inl JSONDecodeError"
  let ?open = "\<lambda>(m::mode) (path::string). None :: error option"
  let ?int = "\<lambda>s. if s = ''0'' then Some (0::int) else None"
  let ?env = "[''GITHUB_EVENT_PATH'' \<mapsto> ''/tmp/event.json'']"
  let ?fs = "[''/tmp/event.json'' \<mapsto> File ''[1]'']"
  note inst = load_payload_cases [where json_load = ?json and open_error = ?open and int_of = ?int
      and p = "''/tmp/event.json''" and bytes = "''[1]''"]
  have a: "\<exists>c. Context_init ?json ?open ?int ?env ?fs = Inr c \<and> payload c = PList [PInt 1]"
  proof -
    from inst [where env = ?env and fs = ?fs]
    have l: "load_payload ?json ?open ?env ?fs = Inr (PList [PInt 1])"
      by (simp add: path_exists_def)
    from inst [where env = ?env and fs = ?fs] l show ?thesis
      by (simp add: getenv_default_def)
  qed
  have b: "\<exists>c. Context_init ?json ?open ?int ?env Map.empty = Inr c \<and> payload c = PDict []"
  proof -
    from inst [where env = ?env and fs = Map.empty]
    have l: "load_payload ?json ?open ?env Map.empty = Inr (PDict [])"
      by (simp add: path_exists_def)
    from inst [where env = ?env and fs = Map.empty] l show ?thesis
      by (simp add: getenv_default_def)
  qed
  have c: "\<exists>c. Context_init ?json ?open ?int Map.empty ?fs = Inr c \<and> payload c = PDict []"
  proof -
    from inst [where env = Map.empty and fs = ?fs]
    have l: "load_payload ?json ?open Map.empty ?fs = Inr (PDict [])"
      by simp
    from inst [where env = Map.empty and fs = ?fs] l show ?thesis
      by (simp add: getenv_default_def)
  qed
  from a b c show ?thesis by (intro conjI)
qed



subsection \<open>The client wrapper\<close>

lemma append_each_append: "append_each all_results items = all_results @ items"
  by (induction items arbitrary: all_results) simp_all

text \<open>
  C6. \<open>paginate\<close> calls the method with the arguments. When the returned object has the
  attribute \<open>totalCount\<close>, the result is the list of the items its iteration yields, in that
  order; when it has not, the result is the list of that one object.
\<close>

theorem paginate_collects:
  "(method args = Inr results \<and> hasattr results ''totalCount'' = Inr True \<and>
      iterate results = Inr items \<longrightarrow>
      paginate method hasattr iterate args = Inr items) \<and>
   (method args = Inr results \<and> hasattr results ''totalCount'' = Inr False \<longrightarrow>
      paginate method hasattr iterate args = Inr [results])"
  by (simp add: paginate_def and_then_def append_each_append)

theorem paginate_collects_witness:
  "paginate (\<lambda>page::nat. Inr (PList [PInt 1, PInt 2, PInt 3]))
     (\<lambda>obj attr. Inr (attr = ''totalCount'' \<and> (case obj of PList xs \<Rightarrow> True | _ \<Rightarrow> False)))
     (\<lambda>obj. case obj of PList xs \<Rightarrow> Inr xs | _ \<Rightarrow> Inl (Raised ''TypeError''))
     0 = Inr [PInt 1, PInt 2, PInt 3] \<and>
   paginate (\<lambda>page::nat. Inr (PStr ''octocat''))
     (\<lambda>obj attr. Inr (attr = ''totalCount'' \<and> (case obj of PList xs \<Rightarrow> True | _ \<Rightarrow> False)))
     (\<lambda>obj. case obj of PList xs \<Rightarrow> Inr xs | _ \<Rightarrow> Inl (Raised ''TypeError''))
     0 = Inr [PStr ''octocat'']"
  using paginate_collects [of "\<lambda>page::nat. Inr (PList [PInt 1, PInt 2, PInt 3])" 0
      "PList [PInt 1, PInt 2, PInt 3]"
      "\<lambda>obj attr. Inr (attr = ''totalCount'' \<and> (case obj of PList xs \<Rightarrow> True | _ \<Rightarrow> False))"
      "\<lambda>obj. case obj of PList xs \<Rightarrow> Inr xs | _ \<Rightarrow> Inl (Raised ''TypeError'')"
      "[PInt 1, PInt 2, PInt 3]"]
    paginate_collects [of "\<lambda>page::nat. Inr (PStr ''octocat'')" 0 "PStr ''octocat''"
      "\<lambda>obj attr. Inr (attr = ''totalCount'' \<and> (case obj of PList xs \<Rightarrow> True | _ \<Rightarrow> False))"
      "\<lambda>obj. case obj of PList xs \<Rightarrow> Inr xs | _ \<Rightarrow> Inl (Raised ''TypeError'')"
      "[]"]
  by simp

lemma retry_of_init:
  "retry (github (GitHubWrapper_init tok url retries exempt)) =
     (if retries > 0
      then Some \<lparr> total = retries, backoff_factor = 1,
                  status_forcelist =
                    filter (\<lambda>x. x \<notin> set (case exempt of
                        None \<Rightarrow> [400, 401, 403, 404, 422]
                      | Some codes \<Rightarrow> if codes \<noteq> [] then codes else [400, 401, 403, 404, 422]))
                      [400..599] \<rparr>
      else None)"
  by (simp add: GitHubWrapper_init_def Let_def del: upto_rec_numeral)

text \<open>
  An empty list of exempt codes is falsy, so the default list stands in for it: with the
  caller's exempt list empty, 404 is still not retried.
\<close>

theorem retry_exempt_empty_counterexample:
  "map_option (\<lambda>r. 404 \<in> set (status_forcelist r))
     (retry (github (GitHubWrapper_init ''ghs_token'' None 3 (Some [])))) = Some False"
  by (simp add: retry_of_init del: upto_rec_numeral)

text \<open>
  C7 (amended). With a retry count above 0 the retry configuration has that total, backoff
  factor 1, and retries exactly the status codes from 400 to 599 that are not in the exempt
  list, which is the caller's list when one is given and not empty, and 400, 401, 403, 404,
  422 otherwise. With a retry count of 0 (or below) there is no retry configuration.
\<close>

theorem retry_configuration:
  "(0 < retries \<longrightarrow>
      (\<exists>r. retry (github (GitHubWrapper_init tok url retries exempt)) = Some r \<and>
           total r = retries \<and> backoff_factor r = 1 \<and>
           set (status_forcelist r) =
             {x. 400 \<le> x \<and> x < 600} -
             set (case exempt of
                    None \<Rightarrow> [400, 401, 403, 404, 422]
                  | Some codes \<Rightarrow> if codes = [] then [400, 401, 403, 404, 422] else codes))) \<and>
   (retries \<le> 0 \<longrightarrow> retry (github (GitHubWrapper_init tok url retries exempt)) = None)"
  by (auto simp: retry_of_init simp del: upto_rec_numeral split: option.splits)

theorem retry_configuration_witness:
  "(\<exists>r. retry (github (GitHubWrapper_init ''ghs_token'' None 3 (Some [404]))) = Some r \<and>
        total r = 3 \<and> backoff_factor r = 1 \<and>
        set (status_forcelist r) = {x. 400 \<le> x \<and> x < 600} - {404}) \<and>
   retry (github (GitHubWrapper_init ''ghs_token'' None 0 None)) = None"
  using retry_configuration [of 3 "''ghs_token''" None "Some [404]"]
    retry_configuration [of 0 "''ghs_token''" None None]
  by (simp del: upto_rec_numeral)

subsection \<open>Writing outputs and environment variables\<close>

lemma lines_from_line:
  "CHR 0x0A \<notin> set l \<Longrightarrow> lines_from cur (l @ CHR 0x0A # rest) = (cur @ l) # lines_from [] rest"
  by (induction l arbitrary: cur) auto

lemma lines_from_terminated:
  "lines_from cur (xs @ CHR 0x0A # ys) = lines_from cur (xs @ [CHR 0x0A]) @ lines_from [] ys"
  by (induction xs arbitrary: cur) auto

lemma lines_of_append_line:
  assumes "CHR 0x0A \<notin> set l" and "old = [] \<or> last old = CHR 0x0A"
  shows "lines_of (old @ l @ [CHR 0x0A]) = lines_of old @ [l]"
proof (cases "old = []")
  case True
  with assms(1) lines_from_line [of l "[]" "[]"] show ?thesis
    by (simp add: lines_of_def)
next
  case False
  with assms(2) have old: "old = butlast old @ [CHR 0x0A]"
    by (metis append_butlast_last_id)
  have "lines_of (old @ l @ [CHR 0x0A]) = lines_from [] (butlast old @ CHR 0x0A # (l @ [CHR 0x0A]))"
    by (subst old) (simp add: lines_of_def)
  also have "\<dots> = lines_from [] (butlast old @ [CHR 0x0A]) @ lines_from [] (l @ [CHR 0x0A])"
    by (rule lines_from_terminated)
  also have "lines_from [] (l @ [CHR 0x0A]) = [l]"
    using assms(1) lines_from_line [of l "[]" "[]"] by simp
  finally show ?thesis using old by (simp add: lines_of_def)
qed

lemma newline_str: "str [CHR 0x0A] = [10]"
  by (simp add: str_def)

lemma char_of_str: "map char_of (str s) = s"
  by (induction s) (simp_all add: str_def)

lemma char_of_newline: "char_of (10::nat) = CHR 0x0A"
  using char_of_str [of "[CHR 0x0A]"] unfolding newline_str by simp

lemma set_output_noop:
  "env ''GITHUB_OUTPUT'' \<in> {None, Some []} \<Longrightarrow>
   set_output fmt encode open_error env fs name v = Inr fs"
  by (auto simp: set_output_def getenv_def)

lemma export_variable_noop:
  "env ''GITHUB_ENV'' \<in> {None, Some []} \<Longrightarrow>
   export_variable fmt encode open_error env fs name v = Inr fs"
  by (auto simp: export_variable_def getenv_def)

lemma append_text_appends:
  "p \<noteq> [] \<Longrightarrow> open_error Append p = None \<Longrightarrow> fs p \<in> {None, Some (File old)} \<Longrightarrow>
   encode content = Some bytes \<Longrightarrow>
   append_text encode open_error fs p content =
     Inr (fs(p \<mapsto> File ((case fs p of None \<Rightarrow> [] | Some _ \<Rightarrow> old) @ bytes)))"
  by (auto simp: append_text_def)

lemma append_text_refused:
  "p \<noteq> [] \<Longrightarrow> open_error Append p = Some e \<Longrightarrow> append_text encode open_error fs p content = Inl e"
  by (simp add: append_text_def)

lemma set_output_append_text:
  "env ''GITHUB_OUTPUT'' = Some p \<Longrightarrow> p \<noteq> [] \<Longrightarrow>
   set_output fmt encode open_error env fs name v =
     append_text encode open_error fs p (name @ str ''='' @ fmt v @ [10])"
  by (simp add: set_output_def getenv_def newline_str)

lemma export_variable_append_text:
  "env ''GITHUB_ENV'' = Some p \<Longrightarrow> p \<noteq> [] \<Longrightarrow>
   export_variable fmt encode open_error env fs name v =
     append_text encode open_error fs p (name @ str ''='' @ fmt v @ [10])"
  by (simp add: export_variable_def getenv_def newline_str)

lemma appended_result:
  assumes p: "p \<noteq> []" and o: "open_error Append p = None" and f: "fs p \<in> {None, Some (File old)}"
    and e: "encode content = Some bytes"
  shows "\<exists>fs' new. append_text encode open_error fs p content = Inr fs' \<and> fs' p = Some (File new) \<and>
      new = (case fs p of None \<Rightarrow> [] | Some _ \<Rightarrow> old) @ bytes \<and>
      (\<forall>q. q \<noteq> p \<longrightarrow> fs' q = fs q) \<and>
      (\<forall>l. bytes = l @ [CHR 0x0A] \<and> CHR 0x0A \<notin> set l \<and>
           (fs p = None \<or> old = [] \<or> last old = CHR 0x0A) \<longrightarrow>
           lines_of new = lines_of (case fs p of None \<Rightarrow> [] | Some _ \<Rightarrow> old) @ [l])"
proof -
  let ?prior = "case fs p of None \<Rightarrow> [] | Some _ \<Rightarrow> old"
  let ?new = "?prior @ bytes"
  have 1: "append_text encode open_error fs p content = Inr (fs(p \<mapsto> File ?new))"
    by (rule append_text_appends [where fs = fs and p = p and old = old and open_error = open_error
        and encode = encode and content = content and bytes = bytes, OF p o f e])
  have 2: "(fs(p \<mapsto> File ?new)) p = Some (File ?new)"
    by simp
  have 3: "\<forall>q. q \<noteq> p \<longrightarrow> (fs(p \<mapsto> File ?new)) q = fs q"
    by simp
  have 4: "\<forall>l. bytes = l @ [CHR 0x0A] \<and> CHR 0x0A \<notin> set l \<and>
           (fs p = None \<or> old = [] \<or> last old = CHR 0x0A) \<longrightarrow>
           lines_of ?new = lines_of ?prior @ [l]"
  proof (intro allI impI, elim conjE)
    fix l
    assume b: "bytes = l @ [CHR 0x0A]" and n: "CHR 0x0A \<notin> set l"
      and t: "fs p = None \<or> old = [] \<or> last old = CHR 0x0A"
    from t have "?prior = [] \<or> last ?prior = CHR 0x0A"
      by (cases "fs p") auto
    from lines_of_append_line [OF n this] b
    show "lines_of ?new = lines_of ?prior @ [l]"
      by simp
  qed
  show ?thesis
    by (intro exI conjI) (rule 1, rule 2, rule refl, rule 3, rule 4)
qed

text \<open>
  Three inputs at which appending one line fails: the variable set to the empty string
  (nothing is written); a value with a newline in it (two lines are added); a file whose
  bytes do not end in a newline (its last line is changed).
\<close>

theorem output_empty_path_counterexample:
  "set_output (\<lambda>s. s) (\<lambda>t. Some (map char_of t)) (\<lambda>m path. None)
       [''GITHUB_OUTPUT'' \<mapsto> ''''] [''/out'' \<mapsto> File ''a=1''] (str ''k'') (str ''v'')
     = Inr [''/out'' \<mapsto> File ''a=1''] \<and>
   export_variable (\<lambda>s. s) (\<lambda>t. Some (map char_of t)) (\<lambda>m path. None)
       [''GITHUB_ENV'' \<mapsto> ''''] [''/env'' \<mapsto> File ''a=1''] (str ''k'') (str ''v'')
     = Inr [''/env'' \<mapsto> File ''a=1''] \<and>
   set_output (\<lambda>s. s) (\<lambda>t. Some (map char_of t)) (\<lambda>m path. None)
       [''GITHUB_OUTPUT'' \<mapsto> ''/out''] [''/out'' \<mapsto> File (''a=1'' @ [CHR 0x0A])]
       (str ''k'') (str ''x'' @ str [CHR 0x0A] @ str ''y'')
     = Inr [''/out'' \<mapsto> File (''a=1'' @ [CHR 0x0A] @ ''k=x'' @ [CHR 0x0A] @ ''y'' @ [CHR 0x0A])] \<and>
   lines_of (''a=1'' @ [CHR 0x0A] @ ''k=x'' @ [CHR 0x0A] @ ''y'' @ [CHR 0x0A])
     = [''a=1'', ''k=x'', ''y''] \<and>
   set_output (\<lambda>s. s) (\<lambda>t. Some (map char_of t)) (\<lambda>m path. None)
       [''GITHUB_OUTPUT'' \<mapsto> ''/out''] [''/out'' \<mapsto> File ''a=1''] (str ''k'') (str ''v'')
     = Inr [''/out'' \<mapsto> File (''a=1k=v'' @ [CHR 0x0A])] \<and>
   lines_of (''a=1k=v'' @ [CHR 0x0A]) = [''a=1k=v'']"
  by (simp add: set_output_def export_variable_def getenv_def append_text_def lines_of_def
      char_of_str)

text \<open>
  C5 (amended). \<open>set_output\<close> and \<open>export_variable\<close> change nothing and raise nothing when
  \<open>GITHUB_OUTPUT\<close>, respectively \<open>GITHUB_ENV\<close>, is unset or empty. When it is a non-empty
  path that the operating system opens for appending, naming a regular file or nothing
  yet, the encoded text \<open>name=value\<close> and a newline is put at the end of that file: the
  bytes before stay, and no other path changes. When those bytes are one line and a
  newline, and the bytes before are none or end in a newline, the lines of the file are the
  lines before and that one line. When the operating system refuses the path (a missing
  parent directory, say), its exception is raised.
\<close>

theorem output_appends_line:
  "(env ''GITHUB_OUTPUT'' \<in> {None, Some []} \<longrightarrow>
      set_output fmt encode open_error env fs name v = Inr fs) \<and>
   (env ''GITHUB_ENV'' \<in> {None, Some []} \<longrightarrow>
      export_variable fmt encode open_error env fs name v = Inr fs) \<and>
   (env ''GITHUB_OUTPUT'' = Some p \<and> p \<noteq> [] \<and> open_error Append p = None \<and>
      fs p \<in> {None, Some (File old)} \<and> encode (name @ str ''='' @ fmt v @ [10]) = Some bytes \<longrightarrow>
      (\<exists>fs' new. set_output fmt encode open_error env fs name v = Inr fs' \<and>
         fs' p = Some (File new) \<and>
         new = (case fs p of None \<Rightarrow> [] | Some _ \<Rightarrow> old) @ bytes \<and>
         (\<forall>q. q \<noteq> p \<longrightarrow> fs' q = fs q) \<and>
         (\<forall>l. bytes = l @ [CHR 0x0A] \<and> CHR 0x0A \<notin> set l \<and>
              (fs p = None \<or> old = [] \<or> last old = CHR 0x0A) \<longrightarrow>
              lines_of new = lines_of (case fs p of None \<Rightarrow> [] | Some _ \<Rightarrow> old) @ [l]))) \<and>
   (env ''GITHUB_ENV'' = Some p \<and> p \<noteq> [] \<and> open_error Append p = None \<and>
      fs p \<in> {None, Some (File old)} \<and> encode (name @ str ''='' @ fmt v @ [10]) = Some bytes \<longrightarrow>
      (\<exists>fs' new. export_variable fmt encode open_error env fs name v = Inr fs' \<and>
         fs' p = Some (File new) \<and>
         new = (case fs p of None \<Rightarrow> [] | Some _ \<Rightarrow> old) @ bytes \<and>
         (\<forall>q. q \<noteq> p \<longrightarrow> fs' q = fs q) \<and>
         (\<forall>l. bytes = l @ [CHR 0x0A] \<and> CHR 0x0A \<notin> set l \<and>
              (fs p = None \<or> old = [] \<or> last old = CHR 0x0A) \<longrightarrow>
              lines_of new = lines_of (case fs p of None \<Rightarrow> [] | Some _ \<Rightarrow> old) @ [l]))) \<and>
   (\<forall>e. env ''GITHUB_OUTPUT'' = Some p \<and> p \<noteq> [] \<and> open_error Append p = Some e \<longrightarrow>
      set_output fmt encode open_error env fs name v = Inl e) \<and>
   (\<forall>e. env ''GITHUB_ENV'' = Some p \<and> p \<noteq> [] \<and> open_error Append p = Some e \<longrightarrow>
      export_variable fmt encode open_error env fs name v = Inl e)"
    (is "?out_noop \<and> ?env_noop \<and> ?out_write \<and> ?env_write \<and> ?out_refused \<and> ?env_refused")
proof -
  have ?out_noop by (intro impI) (rule set_output_noop)
  moreover have ?env_noop by (intro impI) (rule export_variable_noop)
  moreover have ?out_write
  proof (intro impI, elim conjE)
    assume h: "env ''GITHUB_OUTPUT'' = Some p" "p \<noteq> []"
      and o: "open_error Append p = None" and f: "fs p \<in> {None, Some (File old)}"
      and e: "encode (name @ str ''='' @ fmt v @ [10]) = Some bytes"
    show "\<exists>fs' new. set_output fmt encode open_error env fs name v = Inr fs' \<and>
         fs' p = Some (File new) \<and>
         new = (case fs p of None \<Rightarrow> [] | Some _ \<Rightarrow> old) @ bytes \<and>
         (\<forall>q. q \<noteq> p \<longrightarrow> fs' q = fs q) \<and>
         (\<forall>l. bytes = l @ [CHR 0x0A] \<and> CHR 0x0A \<notin> set l \<and>
              (fs p = None \<or> old = [] \<or> last old = CHR 0x0A) \<longrightarrow>
              lines_of new = lines_of (case fs p of None \<Rightarrow> [] | Some _ \<Rightarrow> old) @ [l])"
      unfolding set_output_append_text [where env = env and p = p, OF h]
      by (rule appended_result [where p = p and open_error = open_error and fs = fs and old = old
          and encode = encode and bytes = bytes, OF h(2) o f e])
  qed
  moreover have ?env_write
  proof (intro impI, elim conjE)
    assume h: "env ''GITHUB_ENV'' = Some p" "p \<noteq> []"
      and o: "open_error Append p = None" and f: "fs p \<in> {None, Some (File old)}"
      and e: "encode (name @ str ''='' @ fmt v @ [10]) = Some bytes"
    show "\<exists>fs' new. export_variable fmt encode open_error env fs name v = Inr fs' \<and>
         fs' p = Some (File new) \<and>
         new = (case fs p of None \<Rightarrow> [] | Some _ \<Rightarrow> old) @ bytes \<and>
         (\<forall>q. q \<noteq> p \<longrightarrow> fs' q = fs q) \<and>
         (\<forall>l. bytes = l @ [CHR 0x0A] \<and> CHR 0x0A \<notin> set l \<and>
              (fs p = None \<or> old = [] \<or> last old = CHR 0x0A) \<longrightarrow>
              lines_of new = lines_of (case fs p of None \<Rightarrow> [] | Some _ \<Rightarrow> old) @ [l])"
      unfolding export_variable_append_text [where env = env and p = p, OF h]
      by (rule appended_result [where p = p and open_error = open_error and fs = fs and old = old
          and encode = encode and bytes = bytes, OF h(2) o f e])
  qed
  moreover have ?out_refused
  proof (intro allI impI, elim conjE)
    fix e
    assume h: "env ''GITHUB_OUTPUT'' = Some p" "p \<noteq> []" and r: "open_error Append p = Some e"
    show "set_output fmt encode open_error env fs name v = Inl e"
      unfolding set_output_append_text [where env = env and p = p, OF h]
      by (rule append_text_refused [where p = p and open_error = open_error and e = e, OF h(2) r])
  qed
  moreover have ?env_refused
  proof (intro allI impI, elim conjE)
    fix e
    assume h: "env ''GITHUB_ENV'' = Some p" "p \<noteq> []" and r: "open_error Append p = Some e"
    show "export_variable fmt encode open_error env fs name v = Inl e"
      unfolding export_variable_append_text [where env = env and p = p, OF h]
      by (rule append_text_refused [where p = p and open_error = open_error and e = e, OF h(2) r])
  qed
  ultimately show ?thesis by (intro conjI)
qed

theorem output_appends_line_witness:
  "set_output (\<lambda>s. s) (\<lambda>t. Some (map char_of t)) (\<lambda>m path. None)
       [''GITHUB_OUTPUT'' \<mapsto> ''/out''] [''/out'' \<mapsto> File (''a=1'' @ [CHR 0x0A])] (str ''k'') (str ''v'')
     = Inr [''/out'' \<mapsto> File (''a=1'' @ [CHR 0x0A] @ ''k=v'' @ [CHR 0x0A])] \<and>
   lines_of (''a=1'' @ [CHR 0x0A] @ ''k=v'' @ [CHR 0x0A]) = [''a=1'', ''k=v''] \<and>
   export_variable (\<lambda>s. s) (\<lambda>t. Some (map char_of t)) (\<lambda>m path. None)
       [''GITHUB_ENV'' \<mapsto> ''/env''] Map.empty (str ''k'') (str ''v'')
     = Inr [''/env'' \<mapsto> File (''k=v'' @ [CHR 0x0A])] \<and>
   set_output (\<lambda>s. s) (\<lambda>t. Some (map char_of t)) (\<lambda>m path. None)
       Map.empty [''/out'' \<mapsto> File (''a=1'' @ [CHR 0x0A])] (str ''k'') (str ''v'')
     = Inr [''/out'' \<mapsto> File (''a=1'' @ [CHR 0x0A])] \<and>
   set_output (\<lambda>s. s) (\<lambda>t. Some (map char_of t))
       (\<lambda>m path. if path = ''/nodir/out'' then Some FileNotFoundError else None)
       [''GITHUB_OUTPUT'' \<mapsto> ''/nodir/out''] Map.empty (str ''k'') (str ''v'')
     = Inl FileNotFoundError"
proof -
  let ?fmt = "\<lambda>s::pystr. s"
  let ?enc = "\<lambda>t::pystr. Some (map char_of t :: string)"
  let ?open = "\<lambda>(m::mode) (path::string). None :: error option"
  let ?fs = "[''/out'' \<mapsto> File (''a=1'' @ [CHR 0x0A])]"
  have enc: "?enc (str ''k'' @ str ''='' @ str ''v'' @ [10]) = Some (''k=v'' @ [CHR 0x0A])"
    by (simp add: char_of_str char_of_newline)
  have out: "set_output ?fmt ?enc ?open [''GITHUB_OUTPUT'' \<mapsto> ''/out''] ?fs (str ''k'') (str ''v'')
       = Inr [''/out'' \<mapsto> File (''a=1'' @ [CHR 0x0A] @ ''k=v'' @ [CHR 0x0A])] \<and>
     lines_of (''a=1'' @ [CHR 0x0A] @ ''k=v'' @ [CHR 0x0A]) = [''a=1'', ''k=v'']"
    using output_appends_line [where fmt = ?fmt and encode = ?enc and open_error = ?open
        and env = "[''GITHUB_OUTPUT'' \<mapsto> ''/out'']" and fs = ?fs and name = "str ''k''"
        and v = "str ''v''" and p = "''/out''" and old = "''a=1'' @ [CHR 0x0A]"
        and bytes = "''k=v'' @ [CHR 0x0A]"] enc
    by (simp add: set_output_def getenv_def append_text_def lines_of_def newline_str
        char_of_str char_of_newline)
  have env: "export_variable ?fmt ?enc ?open [''GITHUB_ENV'' \<mapsto> ''/env''] Map.empty
        (str ''k'') (str ''v'')
       = Inr [''/env'' \<mapsto> File (''k=v'' @ [CHR 0x0A])]"
    using output_appends_line [where fmt = ?fmt and encode = ?enc and open_error = ?open
        and env = "[''GITHUB_ENV'' \<mapsto> ''/env'']" and fs = Map.empty and name = "str ''k''"
        and v = "str ''v''" and p = "''/env''" and old = "[]"
        and bytes = "''k=v'' @ [CHR 0x0A]"] enc
    by (simp add: export_variable_def getenv_def append_text_def newline_str
        char_of_str char_of_newline)
  have noop: "set_output ?fmt ?enc ?open Map.empty ?fs (str ''k'') (str ''v'') = Inr ?fs"
    using output_appends_line [where fmt = ?fmt and encode = ?enc and open_error = ?open
        and env = Map.empty and fs = ?fs and name = "str ''k''" and v = "str ''v''"]
    by simp
  have refused: "set_output ?fmt ?enc
       (\<lambda>m path. if path = ''/nodir/out'' then Some FileNotFoundError else None)
       [''GITHUB_OUTPUT'' \<mapsto> ''/nodir/out''] Map.empty (str ''k'') (str ''v'')
     = Inl FileNotFoundError"
    using output_appends_line [where fmt = ?fmt and encode = ?enc
        and open_error = "\<lambda>m path. if path = ''/nodir/out'' then Some FileNotFoundError else None"
        and env = "[''GITHUB_OUTPUT'' \<mapsto> ''/nodir/out'']" and fs = Map.empty
        and name = "str ''k''" and v = "str ''v''" and p = "''/nodir/out''"]
    by simp
  from out env noop refused show ?thesis
    by (intro conjI) (erule conjunct1 conjunct2 | assumption)+
qed

subsection \<open>Running a script\<close>

text \<open>
  C1. \<open>run_script\<close> executes the script in a namespace that binds \<open>github\<close>, \<open>context\<close>,
  \<open>core\<close>, \<open>os\<close>, \<open>sys\<close> and \<open>json\<close>, and returns what the script has bound to
  \<open>__result__\<close>; when the script leaves \<open>__result__\<close> as it was, unbound, the result is
  \<open>None\<close>. For the script \<open>__result__ = 1 + 1\<close>, whose execution binds \<open>__result__\<close> to 2,
  the result is 2. An exception of the script is the exception of \<open>run_script\<close>.
\<close>

theorem run_script_result:
  "(exec script
      [''github'' \<mapsto> GithubObj gh, ''context'' \<mapsto> ContextObj ctx, ''core'' \<mapsto> CoreObj cr,
       ''os'' \<mapsto> Module ''os'', ''sys'' \<mapsto> Module ''sys'', ''json'' \<mapsto> Module ''json''] = Inr ns \<and>
    ns ''__result__'' = Some r \<longrightarrow>
      run_script exec script gh ctx cr = Inr r) \<and>
   (exec script
      [''github'' \<mapsto> GithubObj gh, ''context'' \<mapsto> ContextObj ctx, ''core'' \<mapsto> CoreObj cr,
       ''os'' \<mapsto> Module ''os'', ''sys'' \<mapsto> Module ''sys'', ''json'' \<mapsto> Module ''json''] = Inr ns \<and>
    ns ''__result__'' =
      [''github'' \<mapsto> GithubObj gh, ''context'' \<mapsto> ContextObj ctx, ''core'' \<mapsto> CoreObj cr,
       ''os'' \<mapsto> Module ''os'', ''sys'' \<mapsto> Module ''sys'', ''json'' \<mapsto> Module ''json'']
        ''__result__'' \<longrightarrow>
      run_script exec script gh ctx cr = Inr (Value PNone)) \<and>
   (exec ''__result__ = 1 + 1''
      [''github'' \<mapsto> GithubObj gh, ''context'' \<mapsto> ContextObj ctx, ''core'' \<mapsto> CoreObj cr,
       ''os'' \<mapsto> Module ''os'', ''sys'' \<mapsto> Module ''sys'', ''json'' \<mapsto> Module ''json''] = Inr ns \<and>
    ns ''__result__'' = Some (Value (PInt 2)) \<longrightarrow>
      run_script exec ''__result__ = 1 + 1'' gh ctx cr = Inr (Value (PInt 2))) \<and>
   (exec script
      [''github'' \<mapsto> GithubObj gh, ''context'' \<mapsto> ContextObj ctx, ''core'' \<mapsto> CoreObj cr,
       ''os'' \<mapsto> Module ''os'', ''sys'' \<mapsto> Module ''sys'', ''json'' \<mapsto> Module ''json''] = Inl e \<longrightarrow>
      run_script exec script gh ctx cr = Inl e)"
  by (simp add: run_script_def and_then_def)

theorem run_script_result_witness:
  "run_script
     (\<lambda>script ns. if script = ''__result__ = 1 + 1''
        then Inr (ns(''__result__'' \<mapsto> Value (PInt 2))) else Inr ns)
     ''__result__ = 1 + 1''
     (GitHubWrapper_init ''ghs_token'' None 0 None) (context_with (PDict [])) Core
   = Inr (Value (PInt 2)) \<and>
   run_script
     (\<lambda>script ns. if script = ''__result__ = 1 + 1''
        then Inr (ns(''__result__'' \<mapsto> Value (PInt 2))) else Inr ns)
     ''pass''
     (GitHubWrapper_init ''ghs_token'' None 0 None) (context_with (PDict [])) Core
   = Inr (Value PNone)"
proof -
  let ?exec = "\<lambda>script (ns :: namespace). if script = ''__result__ = 1 + 1''
        then Inr (ns(''__result__'' \<mapsto> Value (PInt 2))) else (Inr ns :: error + namespace)"
  let ?gh = "GitHubWrapper_init ''ghs_token'' None 0 None"
  let ?ctx = "context_with (PDict [])"
  let ?g = "[''github'' \<mapsto> GithubObj ?gh, ''context'' \<mapsto> ContextObj ?ctx, ''core'' \<mapsto> CoreObj Core,
       ''os'' \<mapsto> Module ''os'', ''sys'' \<mapsto> Module ''sys'', ''json'' \<mapsto> Module ''json'']"
  have a: "run_script ?exec ''__result__ = 1 + 1'' ?gh ?ctx Core = Inr (Value (PInt 2))"
    using run_script_result [where exec = ?exec and script = "''__result__ = 1 + 1''"
        and gh = ?gh and ctx = ?ctx and cr = Core
        and ns = "?g(''__result__'' \<mapsto> Value (PInt 2))" and r = "Value (PInt 2)"]
    by simp
  have b: "run_script ?exec ''pass'' ?gh ?ctx Core = Inr (Value PNone)"
    using run_script_result [where exec = ?exec and script = "''pass''"
        and gh = ?gh and ctx = ?ctx and cr = Core and ns = ?g]
    by simp
  from a b show ?thesis by (intro conjI)
qed

end
